theory Spec2Isabelle
  imports Complex_Main "HOL-Library.Sublist" "HOL-Library.FSet"
begin

section \<open>Python values and strings\<close>

text \<open>
  The notebook is a sequence of cells that call three remote services. Its own logic is
  the data it hands to these services and the control flow around the calls. A Python
  \<open>str\<close> is modelled as a \<open>string\<close> whose characters are the code points below 256.
\<close>

text \<open>
  \<open>str.lower()\<close>: on these code points the capital letters are \<open>A\<close> to \<open>Z\<close>
  (65 to 90) and the Latin-1 capitals 192 to 222 without the multiplication sign 215;
  each has its small letter 32 places higher. Every other character is kept.
\<close>

definition lower_char :: "char \<Rightarrow> char" where
  "lower_char c =
     (let n = (of_char c :: nat)
      in if (65 \<le> n \<and> n \<le> 90) \<or> (192 \<le> n \<and> n \<le> 222 \<and> n \<noteq> 215)
         then char_of (n + 32) else c)"

definition lower :: "string \<Rightarrow> string" where
  "lower s = map lower_char s"

text \<open>\<open>s.startswith(p)\<close>, and the substring test \<open>needle in hay\<close> of Python strings.\<close>

fun startswith :: "string \<Rightarrow> string \<Rightarrow> bool" where
  "startswith s [] = True"
| "startswith [] (p # ps) = False"
| "startswith (c # s) (p # ps) = (c = p \<and> startswith s ps)"

fun str_contains :: "string \<Rightarrow> string \<Rightarrow> bool" where
  "str_contains needle [] = (needle = [])"
| "str_contains needle (c # s) = (startswith (c # s) needle \<or> str_contains needle s)"

text \<open>
  The values the notebook builds as prompts: string literals, set literals
  \<open>{"system", "..."}\<close> (braces without a colon make a Python set, which has neither
  order nor duplicates), tuples, dictionaries and lists.
\<close>

datatype pyval =
    PyStr string
  | PySet "string fset"
  | PyTuple "pyval list"
  | PyDict "(string \<times> string) list"
  | PyList "pyval list"

section \<open>External services\<close>

text \<open>
  An exception is a value of type \<open>error\<close>; a call that may raise returns
  \<open>error + 'a\<close>. \<open>KeyError\<close> is what \<open>os.environ[k]\<close> raises; the other three are
  the failures that the remote model, the network and the REPL can raise.
\<close>

datatype error =
    KeyError string
  | NetworkError string
  | OutputError string
  | ReplError string

text \<open>
  Every call that leaves the notebook is recorded: \<open>llm.invoke(p)\<close>,
  \<open>llm_chain.run(s)\<close> and \<open>python_repl.run(s)\<close>.
\<close>

datatype call =
    Invoke pyval
  | ChainRun string
  | ReplRun string

text \<open>
  A remote service is not a function of its argument alone: the same prompt may be
  answered differently each time. It is modelled as a function of the calls made so far
  and of its argument. A computation takes the calls made before it and returns its
  result with the calls it made itself, in order.
\<close>

type_synonym 'a service = "call list \<Rightarrow> 'a \<Rightarrow> error + string"

type_synonym 'r action = "call list \<Rightarrow> (error + 'r) \<times> call list"

section \<open>The agent of cell 12\<close>

text \<open>
  \<^verbatim>\<open>
  def run_agent(input_text):
      response = llm_chain.run(input_text)
      if "calculate" in input_text.lower():
          python_result = python_repl.run(response)
          return python_result
      return response
  \<close>
  The notebook never binds \<open>llm_chain\<close>; it and the REPL tool are parameters. An
  exception of either call leaves \<open>run_agent\<close> at once, there being no \<open>try\<close>.
\<close>

definition run_agent :: "string service \<Rightarrow> string service \<Rightarrow> string \<Rightarrow> string action" where
  "run_agent llm_chain python_repl input_text h =
     (case llm_chain h input_text of
        Inl e \<Rightarrow> (Inl e, [ChainRun input_text])
      | Inr response \<Rightarrow>
          if str_contains ''calculate'' (lower input_text)
          then (python_repl (h @ [ChainRun input_text]) response,
                [ChainRun input_text, ReplRun response])
          else (Inr response, [ChainRun input_text]))"

text \<open>
  The strings handed to \<open>python_repl.run\<close> among the recorded calls, in order; the REPL
  was invoked when there is one.
\<close>

fun repl_args :: "call list \<Rightarrow> string list" where
  "repl_args [] = []"
| "repl_args (ReplRun code # cs) = code # repl_args cs"
| "repl_args (c # cs) = repl_args cs"

definition repl_invoked :: "call list \<Rightarrow> bool" where
  "repl_invoked cs = (repl_args cs \<noteq> [])"

text \<open>
  Two services for concrete runs: one that answers every call with the same string, and
  one that raises the same exception on every call.
\<close>

definition answers :: "string \<Rightarrow> 'a service" where
  "answers r h x = Inr r"

definition raises :: "error \<Rightarrow> 'a service" where
  "raises e h x = Inl e"

section \<open>Credentials: cells 2 and 10\<close>

text \<open>
  \<open>os.environ\<close>, after \<open>load_dotenv(find_dotenv())\<close> of cell 1 has added the entries of
  the \<open>.env\<close> file, is a dictionary from names to values. \<open>os.environ[k]\<close> raises
  \<open>KeyError\<close> when \<open>k\<close> is not set.
\<close>

type_synonym environ = "string \<rightharpoonup> string"

definition environ_getitem :: "environ \<Rightarrow> string \<Rightarrow> error + string" where
  "environ_getitem env k = (case env k of None \<Rightarrow> Inl (KeyError k) | Some v \<Rightarrow> Inr v)"

text \<open>
  \<open>genai.configure\<close> and the constructor \<open>Pinecone\<close> belong to the SDKs of the two
  services, which are not among the sources; they are parameters. Such a call receives
  the \<open>api_key\<close>; it may consult the environment on its own, and it may raise.
\<close>

type_synonym 'c sdk = "environ \<Rightarrow> string \<Rightarrow> error + 'c"

text \<open>
  Cell 2, \<^verbatim>\<open>genai.configure(api_key=os.environ["GOOGLE_API_KEY"])\<close>, and the first
  statement of cell 10, \<^verbatim>\<open>pc = Pinecone(api_key=os.environ["PINECONE_API_KEY"])\<close>. The
  argument is evaluated first, so a name that is not set ends the statement before the
  SDK is called. Each returns its outcome together with the names that the notebook
  itself looked up in \<open>os.environ\<close>.
\<close>

definition configure_genai :: "'c sdk \<Rightarrow> environ \<Rightarrow> (error + 'c) \<times> string list" where
  "configure_genai genai_configure env =
     (case environ_getitem env ''GOOGLE_API_KEY'' of
        Inl e \<Rightarrow> (Inl e, [''GOOGLE_API_KEY''])
      | Inr key \<Rightarrow> (genai_configure env key, [''GOOGLE_API_KEY'']))"

definition pinecone_client :: "'c sdk \<Rightarrow> environ \<Rightarrow> (error + 'c) \<times> string list" where
  "pinecone_client Pinecone env =
     (case environ_getitem env ''PINECONE_API_KEY'' of
        Inl e \<Rightarrow> (Inl e, [''PINECONE_API_KEY''])
      | Inr key \<Rightarrow> (Pinecone env key, [''PINECONE_API_KEY'']))"

text \<open>
  The two statements run in the notebook's order; the first exception ends the run. These
  are the only places where the notebook reads \<open>os.environ\<close>.
\<close>

definition configure_clients ::
  "'c sdk \<Rightarrow> 'd sdk \<Rightarrow> environ \<Rightarrow> (error + 'c \<times> 'd) \<times> string list" where
  "configure_clients genai_configure Pinecone env =
     (case configure_genai genai_configure env of
        (Inl e, ks) \<Rightarrow> (Inl e, ks)
      | (Inr g, ks) \<Rightarrow>
          (case pinecone_client Pinecone env of
             (Inl e, ks') \<Rightarrow> (Inl e, ks @ ks')
           | (Inr pc, ks') \<Rightarrow> (Inr (g, pc), ks @ ks')))"

section \<open>Prompts: cells 3, 4 and 6\<close>

text \<open>\<open>llm.invoke(prompt)\<close>: the argument goes to the model as it is.\<close>

definition llm_invoke :: "pyval service \<Rightarrow> pyval \<Rightarrow> string action" where
  "llm_invoke llm prompt h = (llm h prompt, [Invoke prompt])"

text \<open>Cell 3: \<^verbatim>\<open>llm.invoke("Write me a ballad about LangChain")\<close>.\<close>

definition ballad :: "pyval service \<Rightarrow> string action" where
  "ballad llm = llm_invoke llm (PyStr ''Write me a ballad about LangChain'')"

text \<open>
  Cell 4:
  \<^verbatim>\<open>
  messages = [
      {"system", "You are an expert data scientist"},
      {"human", "Write a Python script that trains a neural network on simulated data "},
  ]
  ai_msg = llm.invoke(messages)
  \<close>
\<close>

definition messages :: "pyval list" where
  "messages =
     [PySet {|''system'', ''You are an expert data scientist''|},
      PySet {|''human'',
              ''Write a Python script that trains a neural network on simulated data ''|}]"

definition ai_msg :: "pyval service \<Rightarrow> string action" where
  "ai_msg llm = llm_invoke llm (PyList messages)"

text \<open>
  Cell 6 hands a list of the same shape to \<open>ChatPromptTemplate.from_messages\<close>:
  \<^verbatim>\<open>
  [
      {"system", "You are an expert data scientist with an expertise in building deep learning models."},
      {"human", "Explain the concept of {concept} in a couple of lines"},
  ]
  \<close>
\<close>

definition template_messages :: "pyval list" where
  "template_messages =
     [PySet {|''system'',
              ''You are an expert data scientist with an expertise in building deep learning models.''|},
      PySet {|''human'', ''Explain the concept of {concept} in a couple of lines''|}]"

text \<open>
  A message that maps a role to a content: the pair \<open>(role, content)\<close> or the dictionary
  \<open>{role: content}\<close>.
\<close>

fun is_role_content :: "pyval \<Rightarrow> bool" where
  "is_role_content (PyTuple [PyStr role, PyStr content]) = True"
| "is_role_content (PyDict [(role, content)]) = True"
| "is_role_content v = False"

text \<open>What the spec allows as a prompt: a plain string or a list of such messages.\<close>

fun is_text_prompt :: "pyval \<Rightarrow> bool" where
  "is_text_prompt (PyStr s) = True"
| "is_text_prompt (PyList ms) = list_all is_role_content ms"
| "is_text_prompt v = False"

section \<open>Chains: cells 7 and 8\<close>

text \<open>
  \<^verbatim>\<open>
  chain = LLMChain(llm=llm, prompt=prompt)
  overall_chain = SimpleSequentialChain(chains=[chain, chain_two], verbose=True)
  explanation = overall_chain.run("autoencoder")
  \<close>
  A prompt template is taken as the function from a chain's input to the prompt it
  formats, and a chain as a computation from its input string.
\<close>

type_synonym prompt_template = "string \<Rightarrow> pyval"

type_synonym chain = "string \<Rightarrow> string action"

text \<open>
  Modelled from the spec: \<open>LLMChain\<close> is a class of the LangChain library, which is not
  among the sources. The glossary calls a chain "a pre-built library abstraction linking
  a prompt template to a model call": running it formats the template with the input and
  invokes the model on the outcome.
\<close>

definition LLMChain :: "pyval service \<Rightarrow> prompt_template \<Rightarrow> chain" where
  "LLMChain llm prompt x = llm_invoke llm (prompt x)"

text \<open>
  Modelled from the spec: \<open>SimpleSequentialChain\<close> is a class of the LangChain library,
  which is not among the sources. The spec calls running it "sequential delegation": the
  chains run in order, each on the output of the one before, and the output of the last is
  the result. An exception of a chain ends the run.
\<close>

fun SimpleSequentialChain :: "chain list \<Rightarrow> chain" where
  "SimpleSequentialChain [] x h = (Inr x, [])"
| "SimpleSequentialChain (c # cs) x h =
     (case c x h of
        (Inl e, made) \<Rightarrow> (Inl e, made)
      | (Inr y, made) \<Rightarrow>
          (case SimpleSequentialChain cs y (h @ made) of
             (r, made') \<Rightarrow> (r, made @ made')))"

text \<open>
  Modelled from the spec: the notebook never binds \<open>chain_two\<close>. By the spec the
  sequential chain delegates "to the same model call twice", so \<open>chain_two\<close> is a chain
  on the same \<open>llm\<close>, with a template of its own.
\<close>

definition chain_two :: "pyval service \<Rightarrow> prompt_template \<Rightarrow> chain" where
  "chain_two llm prompt_two = LLMChain llm prompt_two"

definition overall_chain :: "pyval service \<Rightarrow> prompt_template \<Rightarrow> prompt_template \<Rightarrow> chain" where
  "overall_chain llm prompt prompt_two =
     SimpleSequentialChain [LLMChain llm prompt, chain_two llm prompt_two]"

section \<open>Splitting text: cell 9\<close>

text \<open>
  \<^verbatim>\<open>
  text_splitter = RecursiveCharacterTextSplitter(chunk_size=100, chunk_overlap=0)
  texts = text_splitter.create_documents([explanation])
  \<close>
\<close>

record splitter =
  chunk_size :: nat
  chunk_overlap :: nat

definition text_splitter :: splitter where
  "text_splitter = \<lparr>chunk_size = 100, chunk_overlap = 0\<rparr>"

text \<open>
  Modelled from the spec: \<open>RecursiveCharacterTextSplitter\<close> is a class of the LangChain
  library, which is not among the sources. The spec describes splitting as "fixed-size
  windowing of a string", "on size/overlap parameters with no semantic awareness": a
  window holds \<open>chunk_size\<close> characters, the next one starts \<open>chunk_size - chunk_overlap\<close>
  characters later, and the last window is what is left of the text. The empty text has
  no chunk. The spec does not say what an overlap that is not below the size gives; the
  model then returns no chunk.
\<close>

function split_text :: "splitter \<Rightarrow> string \<Rightarrow> string list" where
  "split_text sp text =
     (if text = [] \<or> chunk_size sp \<le> chunk_overlap sp then []
      else if length text \<le> chunk_size sp then [text]
      else take (chunk_size sp) text
             # split_text sp (drop (chunk_size sp - chunk_overlap sp) text))"
  by pat_completeness auto
termination
  by (relation "measure (\<lambda>(sp, text). length text)") auto

declare split_text.simps [simp del]

datatype document = Document (page_content: string)

text \<open>
  Modelled from the spec: \<open>create_documents\<close> is a method of the same library class. It
  splits each text of the list and wraps every chunk in a document; the spec's "list of
  generated text chunks".
\<close>

definition create_documents :: "splitter \<Rightarrow> string list \<Rightarrow> document list" where
  "create_documents sp ts = concat (map (\<lambda>t. map Document (split_text sp t)) ts)"

definition texts :: "string \<Rightarrow> document list" where
  "texts explanation = create_documents text_splitter [explanation]"

section \<open>The calls of the other cells\<close>

text \<open>
  The other cells call library functions one after the other, each on what the ones
  before returned. The library functions are not among the sources; each is a parameter
  that returns a value or raises. A statement runs only when the one before it has
  returned, and no cell has a \<open>try\<close>.
\<close>













section \<open>Facts about the string functions\<close>

lemma startswith_iff_prefix: "startswith s p \<longleftrightarrow> prefix p s"
  by (induction s p rule: startswith.induct) auto

lemma str_contains_iff_sublist: "str_contains needle hay \<longleftrightarrow> sublist needle hay"
  by (induction hay) (auto simp: startswith_iff_prefix sublist_Cons_right)

text \<open>
  \<open>str_contains\<close> is Python's \<open>in\<close> on strings: the needle occurs somewhere in the
  haystack.
\<close>

lemma str_contains_iff_occurs:
  "str_contains needle hay \<longleftrightarrow> (\<exists>before after. hay = before @ needle @ after)"
  by (simp add: str_contains_iff_sublist sublist_def)

lemma lower_char_idem: "lower_char (lower_char c) = lower_char c"
proof -
  have "of_char (char_of (of_char c + 32 :: nat)) = (of_char c + 32 :: nat)"
    if "(of_char c :: nat) \<le> 222"
    using that by (simp add: of_char_of)
  then show ?thesis
    by (auto simp: lower_char_def Let_def)
qed

lemma lower_idem: "lower (lower s) = lower s"
  by (simp add: lower_def lower_char_idem)

text \<open>The command of cell 12 and its lowered form.\<close>

lemma lower_command:
  "lower ''Calculate the square of 7'' = ''calculate the square of 7''"
  by code_simp

lemma lower_lowered_command:
  "lower ''calculate the square of 7'' = ''calculate the square of 7''"
  by code_simp

lemma lower_question:
  "lower ''What is the square of 7?'' = ''what is the square of 7?''"
  by code_simp

lemma repl_args_run_agent:
  "llm_chain h input_text = Inr response \<Longrightarrow>
   repl_args (snd (run_agent llm_chain python_repl input_text h)) =
     (if str_contains ''calculate'' (lower input_text) then [response] else [])"
  by (simp add: run_agent_def)

section \<open>The keyword branch of \<open>run_agent\<close>\<close>

text \<open>
  C1, as the code has it: whenever the model call returns a response, the REPL tool is
  invoked if and only if "calculate" occurs in the lowered input text; no other test
  stands between the response and the execution.
\<close>

theorem run_agent_repl_iff_lowered_keyword:
  assumes "llm_chain h input_text = Inr response"
  shows "repl_invoked (snd (run_agent llm_chain python_repl input_text h))
           \<longleftrightarrow> str_contains ''calculate'' (lower input_text)"
  using assms by (simp add: repl_invoked_def repl_args_run_agent)

theorem run_agent_repl_iff_lowered_keyword_witness:
  "answers ''print(7 ** 2)'' [] ''Calculate the square of 7'' = Inr ''print(7 ** 2)''
   \<and> repl_invoked
        (snd (run_agent (answers ''print(7 ** 2)'') (answers ''49'')
                ''Calculate the square of 7'' []))
   \<and> str_contains ''calculate'' (lower ''Calculate the square of 7'')"
proof -
  have r: "answers ''print(7 ** 2)'' [] ''Calculate the square of 7'' = Inr ''print(7 ** 2)''"
    by (simp add: answers_def)
  have k: "str_contains ''calculate'' (lower ''Calculate the square of 7'')"
    by (simp add: lower_command)
  from run_agent_repl_iff_lowered_keyword
         [where llm_chain = "answers ''print(7 ** 2)''" and h = "[]"
            and input_text = "''Calculate the square of 7''"
            and response = "''print(7 ** 2)''" and python_repl = "answers ''49''"] r k
  show ?thesis by simp
qed

text \<open>
  C1 as it is stated fails: the command of cell 12 does not contain "calculate" (it
  starts with a capital letter), and the REPL is invoked on it.
\<close>

theorem run_agent_keyword_counterexample:
  "\<not> str_contains ''calculate'' ''Calculate the square of 7''
   \<and> repl_invoked
        (snd (run_agent (answers ''print(7 ** 2)'') (answers ''49'')
                ''Calculate the square of 7'' []))"
  by (simp add: run_agent_def answers_def repl_invoked_def lower_command)

text \<open>
  C2: when the model call returns a response, \<open>run_agent\<close> returns what the REPL makes
  of that response if the keyword test holds, and the response itself, with no call of
  the REPL, if it does not; the only string ever handed to the REPL is the response.
\<close>

theorem run_agent_result:
  assumes "llm_chain h input_text = Inr response"
  shows "(str_contains ''calculate'' (lower input_text) \<longrightarrow>
            run_agent llm_chain python_repl input_text h =
              (python_repl (h @ [ChainRun input_text]) response,
               [ChainRun input_text, ReplRun response]))
         \<and> (\<not> str_contains ''calculate'' (lower input_text) \<longrightarrow>
            run_agent llm_chain python_repl input_text h =
              (Inr response, [ChainRun input_text]))
         \<and> set (repl_args (snd (run_agent llm_chain python_repl input_text h)))
             \<subseteq> {response}"
  using assms by (simp add: run_agent_def)

theorem run_agent_result_witness:
  "run_agent (answers ''print(7 ** 2)'') (answers ''49'') ''Calculate the square of 7'' [] =
     (Inr ''49'', [ChainRun ''Calculate the square of 7'', ReplRun ''print(7 ** 2)''])
   \<and> run_agent (answers ''It is 49.'') (answers ''49'') ''What is the square of 7?'' [] =
     (Inr ''It is 49.'', [ChainRun ''What is the square of 7?''])"
proof -
  have r1: "answers ''print(7 ** 2)'' [] ''Calculate the square of 7'' = Inr ''print(7 ** 2)''"
    and r2: "answers ''It is 49.'' [] ''What is the square of 7?'' = Inr ''It is 49.''"
    by (simp_all add: answers_def)
  have k1: "str_contains ''calculate'' (lower ''Calculate the square of 7'')"
    by (simp add: lower_command)
  have k2: "\<not> str_contains ''calculate'' (lower ''What is the square of 7?'')"
    by (simp add: lower_question)
  from run_agent_result
         [where llm_chain = "answers ''print(7 ** 2)''" and h = "[]"
            and input_text = "''Calculate the square of 7''"
            and response = "''print(7 ** 2)''" and python_repl = "answers ''49''"] r1 k1
  have a: "run_agent (answers ''print(7 ** 2)'') (answers ''49'')
             ''Calculate the square of 7'' [] =
           (answers ''49'' [ChainRun ''Calculate the square of 7''] ''print(7 ** 2)'',
            [ChainRun ''Calculate the square of 7'', ReplRun ''print(7 ** 2)''])"
    by simp
  from run_agent_result
         [where llm_chain = "answers ''It is 49.''" and h = "[]"
            and input_text = "''What is the square of 7?''"
            and response = "''It is 49.''" and python_repl = "answers ''49''"] r2 k2
  have b: "run_agent (answers ''It is 49.'') (answers ''49'') ''What is the square of 7?'' [] =
           (Inr ''It is 49.'', [ChainRun ''What is the square of 7?''])"
    by blast
  from a b show ?thesis by (simp add: answers_def)
qed

text \<open>
  C9: the test is made on the lowered input, so two inputs that differ only in the case
  of their letters (their lowered forms are equal) take the same branch, whatever the
  model answers to each.
\<close>

theorem run_agent_case_insensitive:
  assumes "lower x = lower y"
    and "llm_chain h x = Inr rx"
    and "llm_chain' h' y = Inr ry"
  shows "(repl_invoked (snd (run_agent llm_chain python_repl x h))
            \<longleftrightarrow> str_contains ''calculate'' (lower x))
         \<and> (repl_invoked (snd (run_agent llm_chain python_repl x h))
            \<longleftrightarrow> repl_invoked (snd (run_agent llm_chain' python_repl' y h')))"
  using assms by (simp add: repl_invoked_def repl_args_run_agent)

theorem run_agent_case_insensitive_witness:
  "lower ''Calculate the square of 7'' = lower ''calculate the square of 7''
   \<and> ''Calculate the square of 7'' \<noteq> ''calculate the square of 7''
   \<and> repl_invoked
        (snd (run_agent (answers ''print(7 ** 2)'') (answers ''49'')
                ''Calculate the square of 7'' []))
   \<and> repl_invoked
        (snd (run_agent (answers ''print(7 ** 2)'') (answers ''49'')
                ''calculate the square of 7'' []))"
proof -
  have e: "lower ''Calculate the square of 7'' = lower ''calculate the square of 7''"
    by (simp add: lower_command lower_lowered_command)
  have r1: "answers ''print(7 ** 2)'' [] ''Calculate the square of 7'' = Inr ''print(7 ** 2)''"
    and r2: "answers ''print(7 ** 2)'' [] ''calculate the square of 7'' = Inr ''print(7 ** 2)''"
    by (simp_all add: answers_def)
  have k: "str_contains ''calculate'' (lower ''Calculate the square of 7'')"
    by (simp add: lower_command)
  have d: "''Calculate the square of 7'' \<noteq> ''calculate the square of 7''"
    by simp
  from run_agent_case_insensitive
         [where x = "''Calculate the square of 7''" and y = "''calculate the square of 7''"
            and llm_chain = "answers ''print(7 ** 2)''" and h = "[]"
            and rx = "''print(7 ** 2)''"
            and llm_chain' = "answers ''print(7 ** 2)''" and h' = "[]"
            and ry = "''print(7 ** 2)''"
            and python_repl = "answers ''49''" and python_repl' = "answers ''49''"]
       e r1 r2 k d
  show ?thesis by blast
qed

text \<open>
  C10: whether the REPL runs depends on the input text only. Two runs on the same input
  whose model calls return, with any responses, any REPL and any earlier calls, either
  both invoke the REPL or both do not.
\<close>

theorem run_agent_branch_ignores_response:
  assumes "llm_chain h input_text = Inr r"
    and "llm_chain' h' input_text = Inr r'"
  shows "repl_invoked (snd (run_agent llm_chain python_repl input_text h))
           \<longleftrightarrow> repl_invoked (snd (run_agent llm_chain' python_repl' input_text h'))"
  using assms by (simp add: repl_invoked_def repl_args_run_agent)

theorem run_agent_branch_ignores_response_witness:
  "''print(7 ** 2)'' \<noteq> ''The square of 7 is 49.''
   \<and> repl_invoked
        (snd (run_agent (answers ''print(7 ** 2)'') (answers ''49'')
                ''Calculate the square of 7'' []))
   \<and> repl_invoked
        (snd (run_agent (answers ''The square of 7 is 49.'') (raises (ReplError ''SyntaxError''))
                ''Calculate the square of 7'' []))"
proof -
  have r1: "answers ''print(7 ** 2)'' [] ''Calculate the square of 7'' = Inr ''print(7 ** 2)''"
    and r2: "answers ''The square of 7 is 49.'' [] ''Calculate the square of 7'' =
               Inr ''The square of 7 is 49.''"
    by (simp_all add: answers_def)
  have i: "repl_invoked
        (snd (run_agent (answers ''print(7 ** 2)'') (answers ''49'')
                ''Calculate the square of 7'' []))"
    by (simp add: run_agent_def answers_def repl_invoked_def lower_command)
  from run_agent_branch_ignores_response
         [where llm_chain = "answers ''print(7 ** 2)''" and h = "[]"
            and input_text = "''Calculate the square of 7''" and r = "''print(7 ** 2)''"
            and llm_chain' = "answers ''The square of 7 is 49.''" and h' = "[]"
            and r' = "''The square of 7 is 49.''"
            and python_repl = "answers ''49''"
            and python_repl' = "raises (ReplError ''SyntaxError'')"]
       r1 r2 i
  show ?thesis by simp
qed

section \<open>Credentials\<close>

lemma configure_genai_lookups:
  "snd (configure_genai genai_configure env) = [''GOOGLE_API_KEY'']"
  by (simp add: configure_genai_def split: sum.splits)

lemma pinecone_client_lookups:
  "snd (pinecone_client Pinecone env) = [''PINECONE_API_KEY'']"
  by (simp add: pinecone_client_def split: sum.splits)

lemma configure_genai_set:
  "env ''GOOGLE_API_KEY'' = Some g \<Longrightarrow>
   configure_genai genai_configure env = (genai_configure env g, [''GOOGLE_API_KEY''])"
  by (simp add: configure_genai_def environ_getitem_def)

lemma configure_genai_unset:
  "env ''GOOGLE_API_KEY'' = None \<Longrightarrow>
   configure_genai genai_configure env =
     (Inl (KeyError ''GOOGLE_API_KEY''), [''GOOGLE_API_KEY''])"
  by (simp add: configure_genai_def environ_getitem_def)

lemma pinecone_client_set:
  "env ''PINECONE_API_KEY'' = Some p \<Longrightarrow>
   pinecone_client Pinecone env = (Pinecone env p, [''PINECONE_API_KEY''])"
  by (simp add: pinecone_client_def environ_getitem_def)

lemma pinecone_client_unset:
  "env ''PINECONE_API_KEY'' = None \<Longrightarrow>
   pinecone_client Pinecone env =
     (Inl (KeyError ''PINECONE_API_KEY''), [''PINECONE_API_KEY''])"
  by (simp add: pinecone_client_def environ_getitem_def)

lemma configure_clients_reads:
  "set (snd (configure_clients genai_configure Pinecone env))
     \<subseteq> {''GOOGLE_API_KEY'', ''PINECONE_API_KEY''}"
proof -
  obtain r ks where g: "configure_genai genai_configure env = (r, ks)"
    by (cases "configure_genai genai_configure env")
  obtain r' ks' where p: "pinecone_client Pinecone env = (r', ks')"
    by (cases "pinecone_client Pinecone env")
  from g have ks: "ks = [''GOOGLE_API_KEY'']"
    using configure_genai_lookups [of genai_configure env] by simp
  from p have ks': "ks' = [''PINECONE_API_KEY'']"
    using pinecone_client_lookups [of Pinecone env] by simp
  show ?thesis
    by (cases r; cases r') (simp_all add: configure_clients_def g p ks ks')
qed

lemma configure_clients_both:
  "env ''GOOGLE_API_KEY'' = Some g \<Longrightarrow> env ''PINECONE_API_KEY'' = Some p \<Longrightarrow>
   genai_configure env g = Inr c \<Longrightarrow> Pinecone env p = Inr pc \<Longrightarrow>
   configure_clients genai_configure Pinecone env =
     (Inr (c, pc), [''GOOGLE_API_KEY'', ''PINECONE_API_KEY''])"
  by (simp add: configure_clients_def configure_genai_set pinecone_client_set)

text \<open>
  C3, as the code has it: the notebook reads two credentials from the environment, the
  model API key \<open>GOOGLE_API_KEY\<close> and the vector-database API key \<open>PINECONE_API_KEY\<close>.
  It looks up no other name, so no environment or region of the vector database; and
  when both are set, each is the \<open>api_key\<close> that the call configuring its client
  receives.
\<close>

theorem configure_clients_two_credentials:
  "set (snd (configure_clients genai_configure Pinecone env))
     \<subseteq> {''GOOGLE_API_KEY'', ''PINECONE_API_KEY''}
   \<and> (env ''GOOGLE_API_KEY'' = Some g \<and> env ''PINECONE_API_KEY'' = Some p
        \<and> genai_configure env g = Inr c \<and> Pinecone env p = Inr pc \<longrightarrow>
        configure_clients genai_configure Pinecone env =
          (Inr (c, pc), [''GOOGLE_API_KEY'', ''PINECONE_API_KEY'']))"
proof (intro conjI impI)
  show "set (snd (configure_clients genai_configure Pinecone env))
          \<subseteq> {''GOOGLE_API_KEY'', ''PINECONE_API_KEY''}"
    by (rule configure_clients_reads)
next
  assume "env ''GOOGLE_API_KEY'' = Some g \<and> env ''PINECONE_API_KEY'' = Some p
          \<and> genai_configure env g = Inr c \<and> Pinecone env p = Inr pc"
  then show "configure_clients genai_configure Pinecone env =
          (Inr (c, pc), [''GOOGLE_API_KEY'', ''PINECONE_API_KEY''])"
    by (simp add: configure_clients_both)
qed

theorem configure_clients_two_credentials_witness:
  "configure_clients (\<lambda>env key. Inr (''model API with key '' @ key))
     (\<lambda>env key. Inr (''vector database with key '' @ key))
     [''GOOGLE_API_KEY'' \<mapsto> ''g-key'', ''PINECONE_API_KEY'' \<mapsto> ''p-key''] =
   (Inr (''model API with key g-key'', ''vector database with key p-key''),
    [''GOOGLE_API_KEY'', ''PINECONE_API_KEY''])"
  using configure_clients_two_credentials
          [where genai_configure = "\<lambda>env key. Inr (''model API with key '' @ key)"
             and Pinecone = "\<lambda>env key. Inr (''vector database with key '' @ key)"
             and env = "[''GOOGLE_API_KEY'' \<mapsto> ''g-key'', ''PINECONE_API_KEY'' \<mapsto> ''p-key'']"
             and g = "''g-key''" and p = "''p-key''"
             and c = "''model API with key g-key''"
             and pc = "''vector database with key p-key''"]
  by simp

text \<open>
  C3 as it is stated fails: with the two API keys set and no \<open>PINECONE_ENV\<close>, both
  clients are configured, and the names that the notebook looks up are the two keys only.
\<close>

theorem configure_clients_third_credential_counterexample:
  "[''GOOGLE_API_KEY'' \<mapsto> ''g-key'', ''PINECONE_API_KEY'' \<mapsto> ''p-key''] ''PINECONE_ENV'' = None
   \<and> configure_clients (\<lambda>env key. Inr (''model API with key '' @ key))
        (\<lambda>env key. Inr (''vector database with key '' @ key))
        [''GOOGLE_API_KEY'' \<mapsto> ''g-key'', ''PINECONE_API_KEY'' \<mapsto> ''p-key''] =
      (Inr (''model API with key g-key'', ''vector database with key p-key''),
       [''GOOGLE_API_KEY'', ''PINECONE_API_KEY''])
   \<and> ''PINECONE_ENV'' \<notin>
       set (snd (configure_clients (\<lambda>env key. Inr (''model API with key '' @ key))
                   (\<lambda>env key. Inr (''vector database with key '' @ key))
                   [''GOOGLE_API_KEY'' \<mapsto> ''g-key'', ''PINECONE_API_KEY'' \<mapsto> ''p-key'']))"
  by (simp add: configure_clients_def configure_genai_def pinecone_client_def
        environ_getitem_def)

section \<open>Errors\<close>
















section \<open>The sequential chain\<close>

lemma SimpleSequentialChain_two:
  "c1 x h = (Inr y, made) \<Longrightarrow>
   SimpleSequentialChain [c1, c2] x h =
     (case c2 y (h @ made) of
        (Inl e, made') \<Rightarrow> (Inl e, made @ made')
      | (Inr z, made') \<Rightarrow> (Inr z, made @ made'))"
  by (simp split: prod.splits sum.splits)

text \<open>
  C7: when the first model call returns, running the sequential chain makes exactly two
  calls, both of the same model: the first on the first template filled with the input,
  the second on the second template filled with the output of the first; what the second
  call gives is the result of the run.
\<close>

theorem overall_chain_two_calls:
  assumes "llm h (prompt x) = Inr y"
  shows "overall_chain llm prompt prompt_two x h =
           (llm (h @ [Invoke (prompt x)]) (prompt_two y),
            [Invoke (prompt x), Invoke (prompt_two y)])"
proof -
  from assms have "LLMChain llm prompt x h = (Inr y, [Invoke (prompt x)])"
    by (simp add: LLMChain_def llm_invoke_def)
  then show ?thesis
    unfolding overall_chain_def
    by (simp add: SimpleSequentialChain_two chain_two_def LLMChain_def llm_invoke_def
          split: sum.splits)
qed

theorem overall_chain_two_calls_witness:
  "overall_chain (\<lambda>h p. Inr (if h = [] then ''first answer'' else ''second answer''))
     (\<lambda>c. PyStr (''Explain '' @ c)) (\<lambda>s. PyStr (''Expand: '' @ s)) ''autoencoder'' [] =
   (Inr ''second answer'',
    [Invoke (PyStr ''Explain autoencoder''), Invoke (PyStr ''Expand: first answer'')])"
  using overall_chain_two_calls
          [where llm = "\<lambda>h p. Inr (if h = [] then ''first answer'' else ''second answer'')"
             and h = "[]" and prompt = "\<lambda>c. PyStr (''Explain '' @ c)"
             and x = "''autoencoder''" and y = "''first answer''"
             and prompt_two = "\<lambda>s. PyStr (''Expand: '' @ s)"]
  by simp

section \<open>The messages of cell 4\<close>

text \<open>
  C8 at the messages of cell 4: each message is a set of two strings, equal to the set
  written with its two strings exchanged, so it maps no role to a content, and the list is
  no prompt of the kind the spec describes. \<open>llm.invoke\<close> does receive the list as it
  is. The list given to the template of cell 6 is built in the same way. The string of
  cell 3 is a plain string and reaches the model as it is.
\<close>

theorem messages_are_sets:
  "messages =
     [PySet {|''You are an expert data scientist'', ''system''|},
      PySet {|''Write a Python script that trains a neural network on simulated data '',
              ''human''|}]
   \<and> \<not> list_ex is_role_content messages
   \<and> \<not> is_text_prompt (PyList messages)
   \<and> \<not> list_ex is_role_content template_messages
   \<and> ai_msg llm h = (llm h (PyList messages), [Invoke (PyList messages)])
   \<and> is_text_prompt (PyStr ''Write me a ballad about LangChain'')
   \<and> ballad llm h =
       (llm h (PyStr ''Write me a ballad about LangChain''),
        [Invoke (PyStr ''Write me a ballad about LangChain'')])"
  by (simp add: messages_def template_messages_def ai_msg_def ballad_def llm_invoke_def
        finsert_commute)

section \<open>Facts about the windows\<close>

lemma ceil_div_short: "0 < m \<Longrightarrow> m \<le> n \<Longrightarrow> (m + n - 1) div n = (1::nat)"
  by (rule div_nat_eqI) auto

lemma ceil_div_long:
  assumes "0 < n" and "n < m"
  shows "(m + n - 1) div n = Suc ((m - 1) div n)"
proof -
  define k where "k = m - 1"
  from assms have "m + n - 1 = k + n" unfolding k_def by linarith
  moreover from assms have "(k + n) div n = Suc (k div n)" by simp
  ultimately show ?thesis by (simp only: k_def)
qed

lemma ceiling_div_nat:
  assumes "0 < n"
  shows "\<lceil>real m / real n\<rceil> = int ((m + n - 1) div n)"
proof (rule ceiling_unique)
  define q where "q = (m + n - 1) div n"
  define x where "x = q * n"
  have lo: "x \<le> m + n - 1"
    by (simp add: x_def q_def)
  have hi: "m + n - 1 < x + n"
    unfolding x_def q_def using assms
    by (metis add.commute dividend_less_div_times mult.commute)
  from hi assms have "m \<le> x" by linarith
  then have "real m \<le> real x" by (rule iffD2 [OF of_nat_le_iff])
  then have "real m \<le> real q * real n" by (simp add: x_def)
  with assms have "real m / real n \<le> real q"
    by (simp add: pos_divide_le_eq)
  then show "real m / real n \<le> of_int (int ((m + n - 1) div n))"
    by (simp add: q_def)
  from lo assms have "x < m + n" by linarith
  then have "real x < real (m + n)" by (rule iffD2 [OF of_nat_less_iff])
  then have "real q * real n - real n < real m" by (simp add: x_def)
  then have "(real q - 1) * real n < real m" by (simp add: algebra_simps)
  with assms have "real q - 1 < real m / real n"
    by (simp add: pos_less_divide_eq)
  then show "of_int (int ((m + n - 1) div n)) - 1 < real m / real n"
    by (simp add: q_def)
qed

lemma split_text_Nil: "split_text sp [] = []"
  by (simp add: split_text.simps [of sp "[]"])

lemma split_text_no_step: "chunk_size sp \<le> chunk_overlap sp \<Longrightarrow> split_text sp t = []"
  by (simp add: split_text.simps [of sp t])

lemma split_text_short:
  "t \<noteq> [] \<Longrightarrow> chunk_overlap sp < chunk_size sp \<Longrightarrow> length t \<le> chunk_size sp \<Longrightarrow>
   split_text sp t = [t]"
  by (simp add: split_text.simps [of sp t])

lemma split_text_long:
  "chunk_overlap sp < chunk_size sp \<Longrightarrow> chunk_size sp < length t \<Longrightarrow>
   split_text sp t =
     take (chunk_size sp) t # split_text sp (drop (chunk_size sp - chunk_overlap sp) t)"
  by (subst split_text.simps) auto

lemma split_text_chunk_le:
  "c \<in> set (split_text sp t) \<Longrightarrow> length c \<le> chunk_size sp"
proof (induction sp t rule: split_text.induct)
  case (1 sp t)
  consider (none) "t = [] \<or> chunk_size sp \<le> chunk_overlap sp"
    | (short) "t \<noteq> []" "chunk_overlap sp < chunk_size sp" "length t \<le> chunk_size sp"
    | (long) "t \<noteq> []" "chunk_overlap sp < chunk_size sp" "chunk_size sp < length t"
    by force
  then show ?case
  proof cases
    case none
    with "1.prems" show ?thesis by (auto simp: split_text_Nil split_text_no_step)
  next
    case short
    with "1.prems" show ?thesis by (simp add: split_text_short)
  next
    case long
    with "1.prems"
    have "c = take (chunk_size sp) t
          \<or> c \<in> set (split_text sp (drop (chunk_size sp - chunk_overlap sp) t))"
      by (simp add: split_text_long)
    then show ?thesis
    proof
      assume "c = take (chunk_size sp) t"
      then show ?thesis by simp
    next
      assume "c \<in> set (split_text sp (drop (chunk_size sp - chunk_overlap sp) t))"
      with "1.IH" long show ?thesis by simp
    qed
  qed
qed

lemma split_text_concat:
  "chunk_overlap sp = 0 \<Longrightarrow> 0 < chunk_size sp \<Longrightarrow> concat (split_text sp t) = t"
proof (induction sp t rule: split_text.induct)
  case (1 sp t)
  consider (none) "t = []"
    | (short) "t \<noteq> []" "length t \<le> chunk_size sp"
    | (long) "t \<noteq> []" "chunk_size sp < length t"
    by force
  then show ?case
  proof cases
    case none
    then show ?thesis by (simp add: split_text_Nil)
  next
    case short
    with "1.prems" show ?thesis by (simp add: split_text_short)
  next
    case long
    with "1.prems" "1.IH"
    have "concat (split_text sp (drop (chunk_size sp) t)) = drop (chunk_size sp) t"
      by simp
    with long "1.prems" show ?thesis by (simp add: split_text_long)
  qed
qed

lemma split_text_length:
  "chunk_overlap sp = 0 \<Longrightarrow> 0 < chunk_size sp \<Longrightarrow>
   length (split_text sp t) = (length t + chunk_size sp - 1) div chunk_size sp"
proof (induction sp t rule: split_text.induct)
  case (1 sp t)
  let ?n = "chunk_size sp"
  consider (none) "t = []"
    | (short) "t \<noteq> []" "length t \<le> ?n"
    | (long) "t \<noteq> []" "?n < length t"
    by force
  then show ?case
  proof cases
    case none
    with "1.prems" show ?thesis by (simp add: split_text_Nil)
  next
    case short
    then have "(length t + ?n - 1) div ?n = 1"
      by (intro ceil_div_short) simp_all
    moreover from short "1.prems" have "split_text sp t = [t]"
      by (simp add: split_text_short)
    ultimately show ?thesis by simp
  next
    case long
    with "1.prems" "1.IH"
    have "length (split_text sp (drop ?n t)) = (length t - ?n + ?n - 1) div ?n"
      by simp
    with long have ih: "length (split_text sp (drop ?n t)) = (length t - 1) div ?n"
      by simp
    from long "1.prems" have "(length t + ?n - 1) div ?n = Suc ((length t - 1) div ?n)"
      by (simp only: ceil_div_long)
    moreover from long "1.prems"
    have "split_text sp t = take ?n t # split_text sp (drop ?n t)"
      by (simp add: split_text_long)
    ultimately show ?thesis using ih by simp
  qed
qed

lemma text_splitter_fields:
  "chunk_size text_splitter = 100" "chunk_overlap text_splitter = 0"
  by (simp_all add: text_splitter_def)

lemma texts_chunks: "texts explanation = map Document (split_text text_splitter explanation)"
  by (simp add: texts_def create_documents_def)

lemma texts_sample:
  "texts (replicate 250 CHR ''a'') =
     [Document (replicate 100 CHR ''a''), Document (replicate 100 CHR ''a''),
      Document (replicate 50 CHR ''a'')]"
  by code_simp

section \<open>The number and the content of the chunks\<close>

text \<open>
  C5: with \<open>chunk_size=100\<close> and \<open>chunk_overlap=0\<close> the number of chunks is fixed by
  the length of the text: it is the ceiling of length / 100, for the splitter and for the
  documents made of its chunks.
\<close>

theorem texts_count:
  "int (length (split_text text_splitter explanation)) = \<lceil>real (length explanation) / 100\<rceil>
   \<and> length (texts explanation) = length (split_text text_splitter explanation)"
proof -
  have "length (split_text text_splitter explanation) = (length explanation + 100 - 1) div 100"
    using split_text_length [of text_splitter explanation]
    by (simp add: text_splitter_fields)
  moreover have "\<lceil>real (length explanation) / real (100::nat)\<rceil>
                  = int ((length explanation + 100 - 1) div 100)"
    by (rule ceiling_div_nat) simp
  ultimately show ?thesis by (simp add: texts_chunks)
qed

theorem texts_count_witness:
  "length (texts (replicate 250 CHR ''a'')) = 3
   \<and> \<lceil>real (length (replicate 250 CHR ''a'')) / 100\<rceil> = 3"
proof -
  have "length (texts (replicate 250 CHR ''a'')) = 3"
    by (simp only: texts_sample) simp
  with texts_count [of "replicate 250 CHR ''a''"] show ?thesis
    by simp
qed

text \<open>
  C6: the chunks are windows of the text. Each has at most 100 characters, and put
  together in order they are the text again.
\<close>

theorem texts_windows:
  "(\<forall>d \<in> set (texts explanation). length (page_content d) \<le> 100)
   \<and> concat (map page_content (texts explanation)) = explanation"
proof
  show "\<forall>d \<in> set (texts explanation). length (page_content d) \<le> 100"
  proof
    fix d
    assume "d \<in> set (texts explanation)"
    then obtain c where "d = Document c" and "c \<in> set (split_text text_splitter explanation)"
      by (auto simp: texts_chunks)
    with split_text_chunk_le [of c text_splitter explanation]
    show "length (page_content d) \<le> 100"
      by (simp add: text_splitter_fields)
  qed
next
  have "map page_content (texts explanation) = split_text text_splitter explanation"
    by (simp add: texts_chunks comp_def)
  then show "concat (map page_content (texts explanation)) = explanation"
    using split_text_concat [of text_splitter explanation]
    by (simp add: text_splitter_fields)
qed

theorem texts_windows_witness:
  "Document (replicate 50 CHR ''a'') \<in> set (texts (replicate 250 CHR ''a''))
   \<and> length (page_content (Document (replicate 50 CHR ''a''))) \<le> 100
   \<and> map (\<lambda>d. length (page_content d)) (texts (replicate 250 CHR ''a'')) = [100, 100, 50]
   \<and> concat (map page_content (texts (replicate 250 CHR ''a''))) = replicate 250 CHR ''a''"
proof -
  have m: "Document (replicate 50 CHR ''a'') \<in> set (texts (replicate 250 CHR ''a''))"
    by (simp only: texts_sample) simp
  have l: "map (\<lambda>d. length (page_content d)) (texts (replicate 250 CHR ''a'')) = [100, 100, 50]"
    by (simp only: texts_sample) simp
  from texts_windows [of "replicate 250 CHR ''a''"] m l show ?thesis
    by blast
qed

end
